theory Spec2Isabelle
  imports Main "HOL-Library.AList"
begin

section \<open>Python values, errors and generators\<close>

text \<open>The exceptions the modelled code raises.\<close>

datatype error = TypeError | AttributeError | KeyError | NameError | ImportError

text \<open>
  The Python values that reach the argument checks of \<open>pathspec.py\<close>: \<open>None\<close>, a string,
  a callable that compiles a line into a pattern, and an iterable object (a list, an open
  file, a generator) together with the items it yields.
\<close>

datatype ('p, 'a) pyval =
    PyNone
  | PyStr string
  | PyCallable "string \<Rightarrow> 'p"
  | PyIterable "'a list"

text \<open>
  A generator object. The body of a generator function does not run when the function is
  called; it runs when the generator is advanced. \<open>Generator xs ending\<close> is a generator
  whose body, run from where it stands, yields the items \<open>xs\<close> in order and then ends:
  it returns (\<open>None\<close>) or raises an exception (\<open>Some e\<close>).
\<close>

datatype 'a generator = Generator "'a list" "error option"

text \<open>
  \<open>next(g)\<close>: the generator runs to its next \<open>yield\<close>, to the exception it raises, or to
  its end (\<open>StopIteration\<close>); a generator that has raised is finished.
\<close>

datatype 'a step = Yields 'a | Raises error | Stops

fun advance :: "'a generator \<Rightarrow> 'a step \<times> 'a generator" where
  "advance (Generator (x # xs) ending) = (Yields x, Generator xs ending)"
| "advance (Generator [] (Some e)) = (Raises e, Generator [] None)"
| "advance (Generator [] None) = (Stops, Generator [] None)"

text \<open>\<open>list(g)\<close>: all the items, or the exception the body raises on the way.\<close>

fun exhaust :: "'a generator \<Rightarrow> error + 'a list" where
  "exhaust (Generator xs None) = Inr xs"
| "exhaust (Generator xs (Some e)) = Inl e"

section \<open>Patterns\<close>

text \<open>
  Modelled from the spec: the class \<open>Pattern\<close> is not part of the sources. Section 3 of the
  spec gives a compiled pattern its source text, its polarity \<open>include\<close> (the field
  \<open>include_flag\<close> below, since \<open>include\<close> is reserved in Isabelle), the flags \<open>anchored\<close>
  and \<open>dir_only\<close>, and a side-effect-free predicate \<open>matcher\<close> over normalized path
  strings.
\<close>

record pattern =
  source :: string
  include_flag :: bool
  anchored :: bool
  dir_only :: bool
  matcher :: "string \<Rightarrow> bool"

section \<open>The helpers of \<open>util\<close>\<close>

text \<open>
  Modelled from the spec: \<open>util.match_file\<close> is not part of the sources. Section 4.2:
  initialize \<open>verdict = false\<close>; for each pattern in order, if \<open>pattern.matcher(path)\<close> is
  true, set \<open>verdict = pattern.include\<close>; return the final verdict.
\<close>

fun match_file_loop :: "pattern list \<Rightarrow> string \<Rightarrow> bool \<Rightarrow> bool" where
  "match_file_loop [] path verdict = verdict"
| "match_file_loop (p # ps) path verdict =
     match_file_loop ps path (if matcher p path then include_flag p else verdict)"

definition util_match_file :: "pattern list \<Rightarrow> string \<Rightarrow> bool" where
  "util_match_file ps path = match_file_loop ps path False"

text \<open>
  Modelled from the spec: \<open>util.match_files\<close> is not part of the sources. Section 4.2:
  maintain a mapping from path to current verdict (absent = false); for each pattern in
  order, for each path in the candidate set whose \<open>pattern.matcher(path)\<close> is true, set
  \<open>mapping[path] = pattern.include\<close>; after all patterns are processed, return the paths
  whose final mapping value is true.
\<close>

fun scan_paths :: "pattern \<Rightarrow> string list \<Rightarrow> (string \<rightharpoonup> bool) \<Rightarrow> (string \<rightharpoonup> bool)" where
  "scan_paths p [] mapping = mapping"
| "scan_paths p (path # paths) mapping =
     scan_paths p paths (if matcher p path then mapping(path \<mapsto> include_flag p) else mapping)"

fun scan_patterns :: "pattern list \<Rightarrow> string list \<Rightarrow> (string \<rightharpoonup> bool) \<Rightarrow> (string \<rightharpoonup> bool)" where
  "scan_patterns [] paths mapping = mapping"
| "scan_patterns (p # ps) paths mapping = scan_patterns ps paths (scan_paths p paths mapping)"

definition util_match_files :: "pattern list \<Rightarrow> string list \<Rightarrow> string list" where
  "util_match_files ps paths =
     filter (\<lambda>path. scan_patterns ps paths Map.empty path = Some True) paths"

text \<open>
  Modelled from the spec: \<open>util.normalize_files\<close> and \<open>util._normalize_entries\<close> are not
  part of the sources. \<open>PathSpec.match_files\<close> and \<open>PathSpec.match_entries\<close> use their result
  as a dictionary whose keys are normalized paths and whose values are the files (entries)
  given: each item is stored under its normalized path, a later item replacing an earlier
  one with the same normalized path. \<open>norm\<close> is \<open>util.normalize_file\<close> (section 6, path
  normalization), taken as a parameter.
\<close>

definition normalize_items :: "('a \<Rightarrow> string) \<Rightarrow> 'a list \<Rightarrow> (string \<times> 'a) list" where
  "normalize_items key items = fold (\<lambda>item d. AList.update (key item) item d) items []"

definition normalize_files :: "(string \<Rightarrow> string) \<Rightarrow> string list \<Rightarrow> (string \<times> string) list" where
  "normalize_files norm files = normalize_items norm files"

definition normalize_entries ::
  "(string \<Rightarrow> string) \<Rightarrow> ('e \<Rightarrow> string) \<Rightarrow> 'e list \<Rightarrow> (string \<times> 'e) list" where
  "normalize_entries norm entry_path entries = normalize_items (\<lambda>e. norm (entry_path e)) entries"

text \<open>
  Modelled from the spec: \<open>util._is_iterable\<close> is not part of the sources. Section 7 asks
  for a line sequence; a value that is not an iterable object (\<open>None\<close>, a callable, a single
  string) is rejected.
\<close>

fun is_iterable :: "('p, 'a) pyval \<Rightarrow> bool" where
  "is_iterable (PyIterable xs) = True"
| "is_iterable v = False"

text \<open>The builtin \<open>callable\<close>, and \<open>isinstance(v, string_types)\<close>.\<close>

fun callable :: "('p, 'a) pyval \<Rightarrow> bool" where
  "callable (PyCallable f) = True"
| "callable v = False"

fun is_string :: "('p, 'a) pyval \<Rightarrow> bool" where
  "is_string (PyStr s) = True"
| "is_string v = False"

section \<open>The class \<open>PathSpec\<close>\<close>

text \<open>
  A \<open>PathSpec\<close> object holds the fields that \<open>__init__\<close> assigns. \<open>parent\<close> and \<open>child\<close>
  refer to other \<open>PathSpec\<close> objects, so objects live in a heap and are named by
  references; \<open>None\<close> is Python's \<open>None\<close>.
\<close>

type_synonym ref = nat

record 'p pathspec =
  pattern_factory :: "string \<Rightarrow> 'p"
  lines :: "string list"
  patterns :: "'p list"
  parent :: "ref option"
  child :: "ref option"

type_synonym 'p heap = "'p pathspec list"

text \<open>
  \<open>__init__\<close> (lines 25-29), for a callable factory and the items of an iterable of lines,
  which is what \<open>from_lines\<close> passes. The comprehension of line 27 calls the factory on every
  line that is truthy, that is on every line but the empty string.
\<close>

definition PathSpec_init :: "string list \<Rightarrow> (string \<Rightarrow> 'p) \<Rightarrow> ref option \<Rightarrow> 'p pathspec" where
  "PathSpec_init ls factory par =
     \<lparr> pattern_factory = factory,
       lines = ls,
       patterns = [factory line. line \<leftarrow> ls, line \<noteq> []],
       parent = par,
       child = None \<rparr>"

text \<open>\<open>__len__\<close> (line 51): the number of compiled patterns the path-spec contains.\<close>

definition PathSpec_len :: "'p pathspec \<Rightarrow> nat" where
  "PathSpec_len self = length (patterns self)"

text \<open>\<open>match_file\<close> (lines 142-143).\<close>

definition PathSpec_match_file :: "(string \<Rightarrow> string) \<Rightarrow> pattern pathspec \<Rightarrow> string \<Rightarrow> bool" where
  "PathSpec_match_file norm self file =
     (let norm_file = norm file in util_match_file (patterns self) norm_file)"

text \<open>
  \<open>__eq__\<close> (lines 40-44). The entries of \<open>patterns\<close> are whatever the factory returned:
  a pattern (\<open>Some p\<close>) or Python's \<open>None\<close>. \<open>izip_longest\<close> pairs the two lists position
  by position and fills the shorter one with its fill value, which line 41 leaves at its
  default \<open>None\<close>; \<open>all\<close> asks every pair to compare equal. The comparison \<open>a == b\<close> of two
  such values is the parameter \<open>py_eq\<close>, since \<open>Pattern.__eq__\<close> is not part of the
  sources.
\<close>

fun izip_longest :: "'v \<Rightarrow> 'v list \<Rightarrow> 'v list \<Rightarrow> ('v \<times> 'v) list" where
  "izip_longest fillvalue [] [] = []"
| "izip_longest fillvalue (x # xs) [] = (x, fillvalue) # izip_longest fillvalue xs []"
| "izip_longest fillvalue [] (y # ys) = (fillvalue, y) # izip_longest fillvalue [] ys"
| "izip_longest fillvalue (x # xs) (y # ys) = (x, y) # izip_longest fillvalue xs ys"

datatype 'v pyobject = PathSpecObject "'v pathspec" | OtherObject

datatype eq_result = EqResult bool | NotImplemented

fun PathSpec_eq ::
  "('q option \<Rightarrow> 'q option \<Rightarrow> bool) \<Rightarrow> 'q option pathspec \<Rightarrow> 'q option pyobject \<Rightarrow> eq_result" where
  "PathSpec_eq py_eq self (PathSpecObject other) =
     (let paired_patterns = izip_longest None (patterns self) (patterns other)
      in EqResult (list_all (\<lambda>(a, b). py_eq a b) paired_patterns))"
| "PathSpec_eq py_eq self OtherObject = NotImplemented"

text \<open>
  The entry at a position of a list read as padded with \<open>None\<close> beyond its end: the
  reading of "pairwise equal position by position, with \<open>None\<close> padding" that \<open>__eq__\<close> is
  compared with.
\<close>

definition padded_nth :: "'q option list \<Rightarrow> nat \<Rightarrow> 'q option" where
  "padded_nth xs i = (if i < length xs then xs ! i else None)"

text \<open>
  An object whose entries are all patterns, with its entries as Python values (none of
  them \<open>None\<close>).
\<close>

definition as_values :: "'p pathspec \<Rightarrow> 'p option pathspec" where
  "as_values self =
     \<lparr> pattern_factory = (\<lambda>line. Some (pattern_factory self line)),
       lines = lines self,
       patterns = map Some (patterns self),
       parent = parent self,
       child = child self \<rparr>"

text \<open>
  Allocation of a new object: it gets the next free reference, and the objects already in
  the heap stay as they are.
\<close>

definition alloc :: "'p heap \<Rightarrow> 'p pathspec \<Rightarrow> ref \<times> 'p heap" where
  "alloc h obj = (length h, h @ [obj])"

text \<open>
  \<open>from_lines\<close> (lines 70-78). \<open>util.lookup_pattern\<close> is not part of the sources: it is the
  parameter \<open>lookup\<close>, a function of the name that raises or returns a value. A string is
  looked up (line 71), and an exception of the lookup propagates; a resolved factory that
  is not callable raises \<open>TypeError\<close> (line 73), and so do lines that are not iterable
  (line 76); otherwise the class is called (line 78) and the new object returned.
\<close>

definition from_lines ::
  "(string \<Rightarrow> error + ('p, string) pyval) \<Rightarrow> 'p heap \<Rightarrow> ('p, string) pyval \<Rightarrow> ('p, string) pyval
     \<Rightarrow> (error + ref) \<times> 'p heap" where
  "from_lines lookup h factory_arg lines_arg =
     (case (case factory_arg of
              PyStr name \<Rightarrow> lookup name
            | _ \<Rightarrow> Inr factory_arg) of
        Inl e \<Rightarrow> (Inl e, h)
      | Inr resolved \<Rightarrow>
          (case resolved of
             PyCallable factory \<Rightarrow>
               (if \<not> is_iterable lines_arg then (Inl TypeError, h)
                else (case lines_arg of
                        PyIterable ls \<Rightarrow>
                          (case alloc h (PathSpec_init ls factory None) of
                             (r, h') \<Rightarrow> (Inr r, h'))
                      | _ \<Rightarrow> (Inl TypeError, h)))
           | _ \<Rightarrow> (Inl TypeError, h)))"

text \<open>
  A call \<open>cls.from_lines(...)\<close> with positional arguments. \<open>from_lines\<close> has the two
  parameters \<open>pattern_factory\<close> and \<open>lines\<close>, neither with a default: a call that does not
  give exactly two arguments raises \<open>TypeError\<close> before the body runs.
\<close>

definition call_from_lines ::
  "(string \<Rightarrow> error + ('p, string) pyval) \<Rightarrow> 'p heap \<Rightarrow> ('p, string) pyval list
     \<Rightarrow> (error + ref) \<times> 'p heap" where
  "call_from_lines lookup h args =
     (case args of
        [factory_arg, lines_arg] \<Rightarrow> from_lines lookup h factory_arg lines_arg
      | _ \<Rightarrow> (Inl TypeError, h))"

text \<open>
  \<open>from_specfile\<close> (lines 97-102). The file system is a map from the paths of the regular
  files to their lines. Line 97 raises \<open>TypeError\<close> for a path that is no file; line 101
  calls \<open>cls.from_lines(specfile_handle)\<close>, with the open file as the only argument.
\<close>

definition from_specfile ::
  "(string \<Rightarrow> error + ('p, string) pyval) \<Rightarrow> (string \<rightharpoonup> string list) \<Rightarrow> 'p heap
     \<Rightarrow> ('p, string) pyval \<Rightarrow> string \<Rightarrow> (error + ref) \<times> 'p heap" where
  "from_specfile lookup fs h factory_arg specfile_path =
     (case fs specfile_path of
        None \<Rightarrow> (Inl TypeError, h)
      | Some file_lines \<Rightarrow>
          (let specfile_handle = PyIterable file_lines
           in call_from_lines lookup h [specfile_handle]))"

text \<open>
  The statements of \<open>push_specfile\<close> after the child has been built (lines 118-122): four
  assignments to fields of the child and of \<open>self\<close>, then \<open>return self.child\<close>, the
  reference that line 121 has just stored.
\<close>

definition push_specfile_link :: "'p heap \<Rightarrow> ref \<Rightarrow> ref \<Rightarrow> (error + ref) \<times> 'p heap" where
  "push_specfile_link h self child_spec =
     (let h1 = h[child_spec := (h ! child_spec)\<lparr>lines := lines (h ! self) @ lines (h ! child_spec)\<rparr>];
          h2 = h1[child_spec :=
                 (h1 ! child_spec)\<lparr>patterns := patterns (h1 ! self) @ patterns (h1 ! child_spec)\<rparr>];
          h3 = h2[child_spec := (h2 ! child_spec)\<lparr>parent := Some self\<rparr>];
          h4 = h3[self := (h3 ! self)\<lparr>child := Some child_spec\<rparr>]
      in (Inr child_spec, h4))"

text \<open>\<open>push_specfile\<close> (lines 117-122).\<close>

definition push_specfile ::
  "(string \<Rightarrow> error + ('p, string) pyval) \<Rightarrow> (string \<rightharpoonup> string list) \<Rightarrow> 'p heap \<Rightarrow> ref
     \<Rightarrow> string \<Rightarrow> (error + ref) \<times> 'p heap" where
  "push_specfile lookup fs h self specfile_path =
     (case from_specfile lookup fs h (PyCallable (pattern_factory (h ! self))) specfile_path of
        (Inl e, h') \<Rightarrow> (Inl e, h')
      | (Inr child_spec, h') \<Rightarrow> push_specfile_link h' self child_spec)"

text \<open>\<open>pop_specfile\<close> (lines 125-127).\<close>

definition pop_specfile :: "'p heap \<Rightarrow> ref \<Rightarrow> (error + ref) \<times> 'p heap" where
  "pop_specfile h self =
     (case parent (h ! self) of
        None \<Rightarrow> (Inl AttributeError, h)
      | Some p \<Rightarrow> (Inr p, h))"

text \<open>
  The loops \<open>for path in ...: yield file_map[path]\<close> of lines 165-166 and 189-190, as the
  items yielded and the way the loop ends: a key the dictionary does not hold raises
  \<open>KeyError\<close>, after the items yielded before it.
\<close>

fun yield_values :: "(string \<times> 'a) list \<Rightarrow> string list \<Rightarrow> 'a list \<times> error option" where
  "yield_values d [] = ([], None)"
| "yield_values d (path # paths) =
     (case map_of d path of
        None \<Rightarrow> ([], Some KeyError)
      | Some v \<Rightarrow> (case yield_values d paths of (vs, ending) \<Rightarrow> (v # vs, ending)))"

fun items_of :: "('p, 'a) pyval \<Rightarrow> 'a list" where
  "items_of (PyIterable xs) = xs"
| "items_of v = []"

text \<open>
  \<open>match_files\<close> (lines 184-190) and \<open>match_entries\<close> (lines 160-166). Both contain
  \<open>yield\<close>, so both are generator functions: the call returns a generator, and the check
  of the argument is the first thing the generator does when it is advanced.
  \<open>util.match_files\<close> returns a set, so the order of the items yielded is that of the
  model only.
\<close>

definition PathSpec_match_files ::
  "(string \<Rightarrow> string) \<Rightarrow> pattern pathspec \<Rightarrow> (pattern, string) pyval \<Rightarrow> error + string generator" where
  "PathSpec_match_files norm self files =
     Inr (if \<not> is_iterable files then Generator [] (Some TypeError)
          else (let file_map = normalize_files norm (items_of files);
                    matched_files = util_match_files (patterns self) (map fst file_map)
                in case yield_values file_map matched_files of
                     (yielded, ending) \<Rightarrow> Generator yielded ending))"

definition PathSpec_match_entries ::
  "(string \<Rightarrow> string) \<Rightarrow> ('e \<Rightarrow> string) \<Rightarrow> pattern pathspec \<Rightarrow> (pattern, 'e) pyval
     \<Rightarrow> error + 'e generator" where
  "PathSpec_match_entries norm entry_path self entries =
     Inr (if \<not> is_iterable entries then Generator [] (Some TypeError)
          else (let entry_map = normalize_entries norm entry_path (items_of entries);
                    match_paths = util_match_files (patterns self) (map fst entry_map)
                in case yield_values entry_map match_paths of
                     (yielded, ending) \<Rightarrow> Generator yielded ending))"

text \<open>
  \<open>match_tree_entries\<close> (lines 211-212) and \<open>match_tree_files\<close> (lines 233-234). The walkers
  \<open>util.iter_tree_entries\<close> and \<open>util.iter_tree_files\<close> are not part of the sources: what
  they find under a root is a parameter.
\<close>

definition PathSpec_match_tree_entries ::
  "(string \<Rightarrow> string) \<Rightarrow> ('e \<Rightarrow> string) \<Rightarrow> (string \<Rightarrow> (pattern, 'e) pyval) \<Rightarrow> pattern pathspec
     \<Rightarrow> string \<Rightarrow> error + 'e generator" where
  "PathSpec_match_tree_entries norm entry_path iter_tree_entries self root =
     (let entries = iter_tree_entries root
      in PathSpec_match_entries norm entry_path self entries)"

definition PathSpec_match_tree_files ::
  "(string \<Rightarrow> string) \<Rightarrow> (string \<Rightarrow> (pattern, string) pyval) \<Rightarrow> pattern pathspec
     \<Rightarrow> string \<Rightarrow> error + string generator" where
  "PathSpec_match_tree_files norm iter_tree_files self root =
     (let files = iter_tree_files root
      in PathSpec_match_files norm self files)"

subsection \<open>The public operations on an object of the heap\<close>

text \<open>
  The collaborators that are not part of the sources, gathered: path normalization, the
  comparison of Python values, the registry lookup, the file system, the path of a tree
  entry and the two tree walkers.
\<close>

record 'e env =
  env_norm :: "string \<Rightarrow> string"
  env_py_eq :: "pattern option \<Rightarrow> pattern option \<Rightarrow> bool"
  env_lookup :: "string \<Rightarrow> error + (pattern, string) pyval"
  env_fs :: "string \<rightharpoonup> string list"
  env_entry_path :: "'e \<Rightarrow> string"
  env_tree_entries :: "string \<Rightarrow> (pattern, 'e) pyval"
  env_tree_files :: "string \<Rightarrow> (pattern, string) pyval"

text \<open>A call of a public method of \<open>PathSpec\<close> on an object, with its arguments.\<close>

datatype 'e operation =
    Eq_PathSpec ref
  | Eq_other
  | Len
  | Push_specfile string
  | Pop_specfile
  | Match_file string
  | Match_entries "(pattern, 'e) pyval"
  | Match_files "(pattern, string) pyval"
  | Match_tree_entries string
  | Match_tree_files string

datatype 'e outcome =
    Raised error
  | Returned_eq eq_result
  | Returned_int nat
  | Returned_ref ref
  | Returned_bool bool
  | Returned_entries "'e generator"
  | Returned_files "string generator"

fun invoke :: "'e env \<Rightarrow> pattern heap \<Rightarrow> ref \<Rightarrow> 'e operation \<Rightarrow> 'e outcome \<times> pattern heap" where
  "invoke env h self (Eq_PathSpec other) =
     (Returned_eq (PathSpec_eq (env_py_eq env) (as_values (h ! self))
        (PathSpecObject (as_values (h ! other)))), h)"
| "invoke env h self Eq_other =
     (Returned_eq (PathSpec_eq (env_py_eq env) (as_values (h ! self)) OtherObject), h)"
| "invoke env h self Len = (Returned_int (PathSpec_len (h ! self)), h)"
| "invoke env h self (Push_specfile specfile_path) =
     (case push_specfile (env_lookup env) (env_fs env) h self specfile_path of
        (Inl e, h') \<Rightarrow> (Raised e, h')
      | (Inr r, h') \<Rightarrow> (Returned_ref r, h'))"
| "invoke env h self Pop_specfile =
     (case pop_specfile h self of
        (Inl e, h') \<Rightarrow> (Raised e, h')
      | (Inr r, h') \<Rightarrow> (Returned_ref r, h'))"
| "invoke env h self (Match_file file) =
     (Returned_bool (PathSpec_match_file (env_norm env) (h ! self) file), h)"
| "invoke env h self (Match_entries entries) =
     (case PathSpec_match_entries (env_norm env) (env_entry_path env) (h ! self) entries of
        Inl e \<Rightarrow> (Raised e, h)
      | Inr g \<Rightarrow> (Returned_entries g, h))"
| "invoke env h self (Match_files files) =
     (case PathSpec_match_files (env_norm env) (h ! self) files of
        Inl e \<Rightarrow> (Raised e, h)
      | Inr g \<Rightarrow> (Returned_files g, h))"
| "invoke env h self (Match_tree_entries root) =
     (case PathSpec_match_tree_entries (env_norm env) (env_entry_path env) (env_tree_entries env)
             (h ! self) root of
        Inl e \<Rightarrow> (Raised e, h)
      | Inr g \<Rightarrow> (Returned_entries g, h))"
| "invoke env h self (Match_tree_files root) =
     (case PathSpec_match_tree_files (env_norm env) (env_tree_files env) (h ! self) root of
        Inl e \<Rightarrow> (Raised e, h)
      | Inr g \<Rightarrow> (Returned_files g, h))"

text \<open>
  A pattern factory for the concrete instances below, standing for a callable handed to
  \<open>from_lines\<close>: a line \<open>!s\<close> compiles to an excluding pattern that matches exactly the
  path \<open>s\<close>, any other line \<open>s\<close> to an including pattern that matches exactly \<open>s\<close>.
\<close>

definition exact_pattern :: "bool \<Rightarrow> string \<Rightarrow> pattern" where
  "exact_pattern b s =
     \<lparr> source = s, include_flag = b, anchored = False, dir_only = False,
       matcher = (\<lambda>path. path = s) \<rparr>"

fun literal_factory :: "string \<Rightarrow> pattern" where
  "literal_factory (c # rest) =
     (if c = CHR ''!'' then exact_pattern False rest else exact_pattern True (c # rest))"
| "literal_factory [] = exact_pattern True []"

text \<open>
  A second factory for the instances: it returns \<open>None\<close> for a comment line, as the
  compiler contract of section 4.1 of the spec has it, and the pattern of
  \<open>literal_factory\<close> for any other line.
\<close>

fun comment_factory :: "string \<Rightarrow> pattern option" where
  "comment_factory (c # rest) =
     (if c = CHR ''#'' then None else Some (literal_factory (c # rest)))"
| "comment_factory [] = Some (literal_factory [])"

text \<open>
  A lookup for the instances: one registered name, and \<open>None\<close> returned for every other
  name.
\<close>

definition literal_lookup :: "string \<Rightarrow> error + (pattern, string) pyval" where
  "literal_lookup name =
     (if name = ''literal'' then Inr (PyCallable literal_factory) else Inr PyNone)"

section \<open>The module \<open>patterns/grepwildmatch.py\<close>\<close>

text \<open>
  A module's global namespace, as the list of the names bound in it. A name that is
  neither bound there nor a builtin raises \<open>NameError\<close> when it is evaluated; \<open>os\<close>, \<open>util\<close>
  and \<open>GitWildMatchPattern\<close> are not builtins.
\<close>

type_synonym namespace = "string list"

text \<open>\<open>os.path.basename\<close> of \<open>posixpath\<close>: what follows the last slash.\<close>

definition basename :: "string \<Rightarrow> string" where
  "basename p = rev (takeWhile (\<lambda>c. c \<noteq> CHR ''/'') (rev p))"

text \<open>
  \<open>is_specfile\<close> (line 6), run with the global namespace of the module that defines it: the
  body evaluates the global name \<open>os\<close> first.
\<close>

definition is_specfile :: "namespace \<Rightarrow> string \<Rightarrow> error + bool" where
  "is_specfile module_globals file_path =
     (if ''os'' \<notin> set module_globals then Inl NameError
      else Inr (basename file_path = ''.grepignore''))"

text \<open>
  The statements of the module, in order, given the names that \<open>gitwildmatch\<close> (not part
  of the sources) exports: the import of line 1 binds \<open>GrepWildMatchPattern\<close>, or raises
  \<open>ImportError\<close>; the class statement of line 3 evaluates its base \<open>GitWildMatchPattern\<close>
  and then binds \<open>GrepWildMatchPattern\<close>; line 8 evaluates \<open>util\<close>. The result is the
  namespace of the loaded module.
\<close>

definition grepwildmatch_module :: "string list \<Rightarrow> error + namespace" where
  "grepwildmatch_module gitwildmatch_names =
     (if ''GrepWildMatchPattern'' \<notin> set gitwildmatch_names then Inl ImportError
      else (let g1 = [''GrepWildMatchPattern''] in
            if ''GitWildMatchPattern'' \<notin> set g1 then Inl NameError
            else (let g2 = List.insert ''GrepWildMatchPattern'' g1 in
                  if ''util'' \<notin> set g2 then Inl NameError
                  else Inr g2)))"

section \<open>Single-path matching\<close>

lemma match_file_loop_foldl:
  "match_file_loop ps path v =
     foldl (\<lambda>verdict p. if matcher p path then include_flag p else verdict) v ps"
  by (induction ps arbitrary: v) simp_all

lemma match_file_loop_no_match:
  "list_all (\<lambda>q. \<not> matcher q path) ps \<Longrightarrow> match_file_loop ps path v = v"
  by (induction ps arbitrary: v) simp_all

lemma match_file_loop_append:
  "match_file_loop (ps @ qs) path v = match_file_loop qs path (match_file_loop ps path v)"
  by (induction ps arbitrary: v) simp_all

lemma match_file_loop_last_match:
  assumes "matcher p path" and "list_all (\<lambda>q. \<not> matcher q path) qs"
  shows "match_file_loop (ps @ p # qs) path v = include_flag p"
  using assms by (simp add: match_file_loop_append match_file_loop_no_match)

text \<open>
  C1. The verdict of \<open>match_file\<close> on a path is the result of starting from false and
  visiting the patterns in order, each pattern whose matcher accepts the normalized path
  setting the verdict to its polarity. Hence the last pattern that matches decides,
  whatever came before it, and a path that no pattern matches gets false.
\<close>

theorem match_file_last_match_wins:
  "PathSpec_match_file norm self file =
     foldl (\<lambda>verdict p. if matcher p (norm file) then include_flag p else verdict)
       False (patterns self)
   \<and> (patterns self = ps @ p # qs \<and> matcher p (norm file)
        \<and> list_all (\<lambda>q. \<not> matcher q (norm file)) qs
      \<longrightarrow> PathSpec_match_file norm self file = include_flag p)
   \<and> (list_all (\<lambda>q. \<not> matcher q (norm file)) (patterns self)
      \<longrightarrow> PathSpec_match_file norm self file = False)"
  by (simp add: PathSpec_match_file_def util_match_file_def match_file_loop_foldl [symmetric]
      match_file_loop_last_match match_file_loop_no_match)

theorem match_file_last_match_wins_witness:
  "PathSpec_match_file id (PathSpec_init [''a'', ''!a''] literal_factory None) ''a'' = False
   \<and> PathSpec_match_file id (PathSpec_init [''!a'', ''a''] literal_factory None) ''a'' = True
   \<and> PathSpec_match_file id (PathSpec_init [''a'', ''!a''] literal_factory None) ''b'' = False"
proof -
  have excl: "PathSpec_match_file id (PathSpec_init [''a'', ''!a''] literal_factory None) ''a''
      = include_flag (exact_pattern False ''a'')"
    using match_file_last_match_wins [of id "PathSpec_init [''a'', ''!a''] literal_factory None"
        "''a''" "[exact_pattern True ''a'']" "exact_pattern False ''a''" "[]"]
    by (simp add: PathSpec_init_def exact_pattern_def)
  have incl: "PathSpec_match_file id (PathSpec_init [''!a'', ''a''] literal_factory None) ''a''
      = include_flag (exact_pattern True ''a'')"
    using match_file_last_match_wins [of id "PathSpec_init [''!a'', ''a''] literal_factory None"
        "''a''" "[exact_pattern False ''a'']" "exact_pattern True ''a''" "[]"]
    by (simp add: PathSpec_init_def exact_pattern_def)
  have none: "PathSpec_match_file id (PathSpec_init [''a'', ''!a''] literal_factory None) ''b''
      = False"
    using match_file_last_match_wins [of id "PathSpec_init [''a'', ''!a''] literal_factory None"
        "''b''"]
    by (simp add: PathSpec_init_def exact_pattern_def)
  from excl incl none show ?thesis by (simp add: exact_pattern_def)
qed

text \<open>
  C4. A \<open>PathSpec\<close> whose pattern sequence is empty gives the verdict false for every
  path.
\<close>

theorem match_file_empty_patterns:
  "patterns self = [] \<Longrightarrow> PathSpec_match_file norm self file = False"
  by (simp add: PathSpec_match_file_def util_match_file_def)

theorem match_file_empty_patterns_witness:
  "patterns (PathSpec_init [] literal_factory None) = []
   \<and> PathSpec_match_file id (PathSpec_init [] literal_factory None) ''src/main.py'' = False"
proof -
  have h: "patterns (PathSpec_init [] literal_factory None) = []"
    by (simp add: PathSpec_init_def)
  from h match_file_empty_patterns [OF h, of id "''src/main.py''"] show ?thesis by simp
qed

section \<open>Batch matching\<close>

lemma scan_paths_apply:
  "scan_paths p paths m f =
     (if f \<in> set paths \<and> matcher p f then Some (include_flag p) else m f)"
  by (induction paths arbitrary: m) auto

lemma scan_patterns_apply:
  "f \<in> set paths \<Longrightarrow>
     (scan_patterns ps paths m f = Some True) = match_file_loop ps f (m f = Some True)"
  by (induction ps arbitrary: m) (auto simp: scan_paths_apply)

lemma util_match_files_eq:
  "util_match_files ps paths = filter (util_match_file ps) paths"
  unfolding util_match_files_def util_match_file_def
  by (rule filter_cong) (simp_all add: scan_patterns_apply)

lemma map_of_normalize_fold:
  "\<forall>x\<in>set items. key x = x \<Longrightarrow>
     map_of (fold (\<lambda>item d. AList.update (key item) item d) items d0) k =
        (if k \<in> set items then Some k else map_of d0 k)"
  by (induction items arbitrary: d0) (auto simp: update_conv')

lemma keys_normalize_fold:
  "fst ` set (fold (\<lambda>item d. AList.update (key item) item d) items d0) =
     key ` set items \<union> fst ` set d0"
proof (induction items arbitrary: d0)
  case Nil
  show ?case by simp
next
  case (Cons a items)
  have "fst ` set (AList.update (key a) a d0) = insert (key a) (fst ` set d0)"
    by (simp add: dom_update)
  with Cons show ?case by simp
qed

lemma keys_normalize_items: "set (map fst (normalize_items key items)) = key ` set items"
  by (simp add: normalize_items_def keys_normalize_fold)

lemma map_of_normalize_items:
  "\<forall>x\<in>set items. key x = x \<Longrightarrow>
     map_of (normalize_items key items) k = (if k \<in> set items then Some k else None)"
  by (simp add: normalize_items_def map_of_normalize_fold)

lemma yield_values_ok:
  "\<forall>k\<in>set ks. map_of d k = Some k \<Longrightarrow> yield_values d ks = (ks, None)"
  by (induction ks) auto

lemma match_files_normalized:
  assumes "\<forall>f\<in>set files. norm f = f"
  shows "\<exists>g ys. PathSpec_match_files norm self (PyIterable files) = Inr g
           \<and> exhaust g = Inr ys
           \<and> set ys = {f \<in> set files. PathSpec_match_file norm self f}"
proof -
  let ?d = "normalize_files norm files"
  let ?keys = "map fst ?d"
  let ?matched = "util_match_files (patterns self) ?keys"
  have keys: "set ?keys = set files"
    using assms keys_normalize_items [of norm files] by (simp add: normalize_files_def)
  have look: "\<forall>k\<in>set ?matched. map_of ?d k = Some k"
    using assms keys
    by (auto simp: normalize_files_def map_of_normalize_items util_match_files_eq)
  have run: "yield_values ?d ?matched = (?matched, None)"
    using look by (rule yield_values_ok)
  have "set ?matched = {f \<in> set files. PathSpec_match_file norm self f}"
    using assms keys by (auto simp: util_match_files_eq PathSpec_match_file_def)
  with run show ?thesis
    by (simp add: PathSpec_match_files_def Let_def)
qed

text \<open>
  C2. For normalized paths (paths that normalization leaves as they are), consuming the
  generator that \<open>match_files\<close> returns gives exactly the paths on which \<open>match_file\<close>
  returns true; in particular a single path is in the batch result over that path alone
  if and only if its single-path verdict is true.
\<close>

theorem match_files_agrees_with_match_file:
  "((\<forall>f\<in>set files. norm f = f) \<longrightarrow>
      (\<exists>g ys. PathSpec_match_files norm self (PyIterable files) = Inr g
         \<and> exhaust g = Inr ys
         \<and> set ys = {f \<in> set files. PathSpec_match_file norm self f}))
   \<and> (norm f = f \<longrightarrow>
      (\<exists>g ys. PathSpec_match_files norm self (PyIterable [f]) = Inr g
         \<and> exhaust g = Inr ys
         \<and> (f \<in> set ys) = PathSpec_match_file norm self f))"
proof (intro conjI impI)
  assume "\<forall>f\<in>set files. norm f = f"
  then show "\<exists>g ys. PathSpec_match_files norm self (PyIterable files) = Inr g
      \<and> exhaust g = Inr ys \<and> set ys = {f \<in> set files. PathSpec_match_file norm self f}"
    by (rule match_files_normalized)
next
  assume "norm f = f"
  then have "\<forall>x\<in>set [f]. norm x = x" by simp
  from match_files_normalized [OF this, of self]
  obtain g ys where "PathSpec_match_files norm self (PyIterable [f]) = Inr g"
    and "exhaust g = Inr ys" and "set ys = {x \<in> set [f]. PathSpec_match_file norm self x}"
    by blast
  then show "\<exists>g ys. PathSpec_match_files norm self (PyIterable [f]) = Inr g
      \<and> exhaust g = Inr ys \<and> (f \<in> set ys) = PathSpec_match_file norm self f"
    by auto
qed

theorem match_files_agrees_with_match_file_witness:
  "(\<exists>g ys. PathSpec_match_files id (PathSpec_init [''a'', ''b'', ''!b''] literal_factory None)
        (PyIterable [''a'', ''c'', ''b'']) = Inr g
      \<and> exhaust g = Inr ys \<and> set ys = {''a''})
   \<and> (\<exists>g ys. PathSpec_match_files id (PathSpec_init [''a'', ''b'', ''!b''] literal_factory None)
        (PyIterable [''b'']) = Inr g
      \<and> exhaust g = Inr ys \<and> (''b'' \<in> set ys) = False)"
proof -
  let ?spec = "PathSpec_init [''a'', ''b'', ''!b''] literal_factory None"
  have verdicts: "{f \<in> set [''a'', ''c'', ''b'']. PathSpec_match_file id ?spec f} = {''a''}"
    "PathSpec_match_file id ?spec ''b'' = False"
    by (auto simp: PathSpec_match_file_def util_match_file_def PathSpec_init_def
        exact_pattern_def)
  have normalized: "\<forall>f\<in>set [''a'', ''c'', ''b'']. id f = f" "id ''b'' = ''b''"
    by simp_all
  from match_files_agrees_with_match_file
    [where norm = id and self = ?spec and files = "[''a'', ''c'', ''b'']" and f = "''b''"]
    normalized verdicts
  show ?thesis by simp
qed

section \<open>Construction\<close>

lemma comprehension_filter:
  "[factory line. line \<leftarrow> ls, line \<noteq> []] = map factory (filter (\<lambda>line. line \<noteq> []) ls)"
  by (induction ls) simp_all

text \<open>
  With a callable factory, or a name that the lookup resolves to one, and an iterable of
  lines, \<open>from_lines\<close> builds the object and returns its reference.
\<close>

lemma from_lines_constructs:
  "from_lines lookup h (PyCallable factory) (PyIterable ls)
     = (Inr (length h), h @ [PathSpec_init ls factory None])"
  "lookup name = Inr (PyCallable factory) \<Longrightarrow>
     from_lines lookup h (PyStr name) (PyIterable ls)
       = (Inr (length h), h @ [PathSpec_init ls factory None])"
  by (simp_all add: from_lines_def alloc_def)

text \<open>An exception of the lookup leaves \<open>from_lines\<close> as it is, and no object is built.\<close>

lemma from_lines_lookup_raises:
  "lookup name = Inl e \<Longrightarrow> from_lines lookup h (PyStr name) lines_arg = (Inl e, h)"
  by (simp add: from_lines_def)

text \<open>
  C3, as the code has it. The claim says that a comment line yields no pattern, so that
  the three lines \<open># comment\<close>, the empty line and \<open>foo\<close> give a \<open>PathSpec\<close> with exactly one
  pattern. The constructor drops only the lines that are the empty string: every other
  line, a comment line included, is handed to the pattern factory and contributes one
  entry to \<open>patterns\<close>, in line order. The three lines give exactly two entries, the
  factory's results for \<open># comment\<close> and for \<open>foo\<close>, whatever the factory is.
\<close>

theorem init_keeps_every_nonempty_line:
  "patterns (PathSpec_init ls factory par) = map factory (filter (\<lambda>line. line \<noteq> []) ls)
   \<and> PathSpec_len (PathSpec_init ls factory par) = length (filter (\<lambda>line. line \<noteq> []) ls)
   \<and> patterns (PathSpec_init [''# comment'', '''', ''foo''] factory par)
        = [factory ''# comment'', factory ''foo'']
   \<and> PathSpec_len (PathSpec_init [''# comment'', '''', ''foo''] factory par) = 2"
  by (simp add: PathSpec_init_def PathSpec_len_def comprehension_filter)

text \<open>
  C3, as stated, fails: the \<open>PathSpec\<close> built from the three lines holds two compiled
  patterns, not one.
\<close>

theorem init_comment_line_counterexample:
  "PathSpec_len (PathSpec_init [''# comment'', '''', ''foo''] literal_factory None) = 2
   \<and> PathSpec_len (PathSpec_init [''# comment'', '''', ''foo''] literal_factory None) \<noteq> 1"
  by (simp add: PathSpec_init_def PathSpec_len_def)

section \<open>Equality\<close>

lemma length_izip_longest:
  "length (izip_longest fillvalue xs ys) = max (length xs) (length ys)"
  by (induction fillvalue xs ys rule: izip_longest.induct) simp_all

lemma nth_izip_longest:
  "i < max (length xs) (length ys) \<Longrightarrow>
     izip_longest None xs ys ! i = (padded_nth xs i, padded_nth ys i)"
proof (induction "None :: 'a option" xs ys arbitrary: i rule: izip_longest.induct)
  case 1
  then show ?case by simp
next
  case (2 x xs)
  then show ?case by (cases i) (simp_all add: padded_nth_def)
next
  case (3 y ys)
  then show ?case by (cases i) (simp_all add: padded_nth_def)
next
  case (4 x xs y ys)
  then show ?case by (cases i) (simp_all add: padded_nth_def)
qed

lemma izip_longest_all:
  "list_all (\<lambda>(a, b). py_eq a b) (izip_longest None xs ys) =
     (\<forall>i < max (length xs) (length ys). py_eq (padded_nth xs i) (padded_nth ys i))"
  by (simp add: list_all_length length_izip_longest nth_izip_longest)

lemma padded_pairwise_unequal_lengths:
  assumes none: "\<forall>x \<in> set xs \<union> set ys. \<not> py_eq x None \<and> \<not> py_eq None x"
    and len: "length xs \<noteq> length ys"
  shows "\<not> (\<forall>i < max (length xs) (length ys). py_eq (padded_nth xs i) (padded_nth ys i))"
proof -
  let ?i = "min (length xs) (length ys)"
  have bound: "?i < max (length xs) (length ys)" using len by auto
  have "\<not> py_eq (padded_nth xs ?i) (padded_nth ys ?i)"
  proof (cases "length xs < length ys")
    case True
    then have "ys ! length xs \<in> set ys" by simp
    with none True show ?thesis by (simp add: padded_nth_def min_def)
  next
    case False
    with len have less: "length ys < length xs" by simp
    then have "xs ! length ys \<in> set xs" by simp
    with none less show ?thesis by (simp add: padded_nth_def min_def)
  qed
  with bound show ?thesis by blast
qed

lemma padded_pairwise_equal_lengths:
  "length xs = length ys \<Longrightarrow>
     (\<forall>i < max (length xs) (length ys). py_eq (padded_nth xs i) (padded_nth ys i))
       = (\<forall>i < length xs. py_eq (xs ! i) (ys ! i))"
  by (simp add: padded_nth_def)

text \<open>
  C5, as the code has it. Two \<open>PathSpec\<close> objects compare equal if and only if their
  pattern sequences are equal position by position, the shorter sequence read as padded
  with \<open>None\<close>. When no entry of either sequence compares equal to \<open>None\<close>, two objects
  whose sequences differ in length are unequal, and equality is equal length together
  with equal entries at every position.
\<close>

theorem eq_iff_pairwise_equal:
  "PathSpec_eq py_eq self (PathSpecObject other) =
     EqResult (\<forall>i < max (length (patterns self)) (length (patterns other)).
        py_eq (padded_nth (patterns self) i) (padded_nth (patterns other) i))
   \<and> ((\<forall>x \<in> set (patterns self) \<union> set (patterns other). \<not> py_eq x None \<and> \<not> py_eq None x)
        \<and> length (patterns self) \<noteq> length (patterns other) \<longrightarrow>
      PathSpec_eq py_eq self (PathSpecObject other) = EqResult False)
   \<and> ((\<forall>x \<in> set (patterns self) \<union> set (patterns other). \<not> py_eq x None \<and> \<not> py_eq None x) \<longrightarrow>
      PathSpec_eq py_eq self (PathSpecObject other) =
        EqResult (length (patterns self) = length (patterns other)
          \<and> (\<forall>i < length (patterns self). py_eq (patterns self ! i) (patterns other ! i))))"
proof (intro conjI impI)
  show "PathSpec_eq py_eq self (PathSpecObject other) =
     EqResult (\<forall>i < max (length (patterns self)) (length (patterns other)).
        py_eq (padded_nth (patterns self) i) (padded_nth (patterns other) i))"
    by (simp add: izip_longest_all)
next
  assume "(\<forall>x \<in> set (patterns self) \<union> set (patterns other). \<not> py_eq x None \<and> \<not> py_eq None x)
      \<and> length (patterns self) \<noteq> length (patterns other)"
  then show "PathSpec_eq py_eq self (PathSpecObject other) = EqResult False"
    using padded_pairwise_unequal_lengths [of "patterns self" "patterns other" py_eq]
    by (simp add: izip_longest_all)
next
  assume none: "\<forall>x \<in> set (patterns self) \<union> set (patterns other).
      \<not> py_eq x None \<and> \<not> py_eq None x"
  show "PathSpec_eq py_eq self (PathSpecObject other) =
      EqResult (length (patterns self) = length (patterns other)
        \<and> (\<forall>i < length (patterns self). py_eq (patterns self ! i) (patterns other ! i)))"
  proof (cases "length (patterns self) = length (patterns other)")
    case True
    then show ?thesis
      using padded_pairwise_equal_lengths [of "patterns self" "patterns other" py_eq]
      by (simp add: izip_longest_all)
  next
    case False
    then show ?thesis
      using none padded_pairwise_unequal_lengths [of "patterns self" "patterns other" py_eq]
      by (simp add: izip_longest_all)
  qed
qed

theorem eq_iff_pairwise_equal_witness:
  "PathSpec_eq (=) (PathSpec_init [''a'', ''b''] comment_factory None)
       (PathSpecObject (PathSpec_init [''a'', '''', ''b''] comment_factory (Some 0)))
     = EqResult True
   \<and> PathSpec_eq (=) (PathSpec_init [''a'', ''b''] comment_factory None)
       (PathSpecObject (PathSpec_init [''a''] comment_factory None)) = EqResult False
   \<and> PathSpec_eq (=) (PathSpec_init [''a'', ''b''] comment_factory None)
       (PathSpecObject (PathSpec_init [''a'', ''!b''] comment_factory None)) = EqResult False"
proof -
  have ab: "patterns (PathSpec_init [''a'', ''b''] comment_factory par)
      = [Some (exact_pattern True ''a''), Some (exact_pattern True ''b'')]"
    and ab': "patterns (PathSpec_init [''a'', '''', ''b''] comment_factory par)
      = [Some (exact_pattern True ''a''), Some (exact_pattern True ''b'')]"
    and a: "patterns (PathSpec_init [''a''] comment_factory par)
      = [Some (exact_pattern True ''a'')]"
    and anb: "patterns (PathSpec_init [''a'', ''!b''] comment_factory par)
      = [Some (exact_pattern True ''a''), Some (exact_pattern False ''b'')]"
    for par
    by (simp_all add: PathSpec_init_def)
  have differ: "exact_pattern True ''b'' \<noteq> exact_pattern False ''b''"
    by (simp add: exact_pattern_def)
  show ?thesis
    using eq_iff_pairwise_equal [of "(=)" "PathSpec_init [''a'', ''b''] comment_factory None"
        "PathSpec_init [''a'', '''', ''b''] comment_factory (Some 0)"]
      eq_iff_pairwise_equal [of "(=)" "PathSpec_init [''a'', ''b''] comment_factory None"
        "PathSpec_init [''a''] comment_factory None"]
      eq_iff_pairwise_equal [of "(=)" "PathSpec_init [''a'', ''b''] comment_factory None"
        "PathSpec_init [''a'', ''!b''] comment_factory None"]
      differ
    by (simp add: ab ab' a anb less_Suc_eq)
qed

text \<open>
  C5, as stated, fails: a factory may return \<open>None\<close> for a line, line 27 keeps it, and it
  compares equal to the \<open>None\<close> of the padding. The two objects below have pattern
  sequences of lengths 2 and 1 and compare equal.
\<close>

theorem eq_different_lengths_counterexample:
  "PathSpec_eq (=) (PathSpec_init [''foo'', ''# comment''] comment_factory None)
       (PathSpecObject (PathSpec_init [''foo''] comment_factory None)) = EqResult True
   \<and> length (patterns (PathSpec_init [''foo'', ''# comment''] comment_factory None)) = 2
   \<and> length (patterns (PathSpec_init [''foo''] comment_factory None)) = 1"
  by (simp add: PathSpec_init_def)

section \<open>Pushing and popping specfiles\<close>

lemma from_specfile_raises:
  "from_specfile lookup fs h factory_arg specfile_path = (Inl TypeError, h)"
  by (simp add: from_specfile_def call_from_lines_def split: option.splits)

lemma push_specfile_raises:
  "push_specfile lookup fs h self specfile_path = (Inl TypeError, h)"
  by (simp add: push_specfile_def from_specfile_raises)

text \<open>
  What lines 118-122 do once a child exists: the child refers to \<open>self\<close> as its parent,
  \<open>self\<close> refers to the child, and the child's lines and patterns are those of \<open>self\<close>
  followed by its own.
\<close>

lemma push_specfile_link_links:
  assumes "self < length h" and "child_spec < length h" and "self \<noteq> child_spec"
  shows "fst (push_specfile_link h self child_spec) = Inr child_spec"
    and "parent (snd (push_specfile_link h self child_spec) ! child_spec) = Some self"
    and "child (snd (push_specfile_link h self child_spec) ! self) = Some child_spec"
    and "patterns (snd (push_specfile_link h self child_spec) ! child_spec)
           = patterns (h ! self) @ patterns (h ! child_spec)"
    and "lines (snd (push_specfile_link h self child_spec) ! child_spec)
           = lines (h ! self) @ lines (h ! child_spec)"
  using assms by (simp_all add: push_specfile_link_def Let_def)

text \<open>
  C6, on the code: \<open>push_specfile\<close> never creates a child. \<open>from_specfile\<close> raises
  \<open>TypeError\<close> for a path that is no file, and for a file it calls \<open>from_lines\<close> with one
  argument where two are required, which raises \<open>TypeError\<close> as well; the exception
  leaves \<open>push_specfile\<close> before any of its assignments, and the heap is as it was.
\<close>

theorem push_specfile_always_raises:
  "push_specfile lookup fs h self specfile_path = (Inl TypeError, h)"
  by (simp add: push_specfile_def from_specfile_def call_from_lines_def split: option.splits)

text \<open>
  C9. \<open>pop_specfile\<close> raises \<open>AttributeError\<close> if and only if the object has no parent;
  when it has one, the call returns that parent; in both cases every object of the heap,
  the child and the parent among them, is left as it was.
\<close>

theorem pop_specfile_spec:
  "(fst (pop_specfile h self) = Inl AttributeError) = (parent (h ! self) = None)
   \<and> (parent (h ! self) = Some p \<longrightarrow> pop_specfile h self = (Inr p, h))
   \<and> snd (pop_specfile h self) = h"
  by (auto simp: pop_specfile_def split: option.splits)

theorem pop_specfile_spec_witness:
  "pop_specfile [PathSpec_init [''a''] literal_factory None,
                 PathSpec_init [''a'', ''b''] literal_factory (Some 0)] 1
     = (Inr 0, [PathSpec_init [''a''] literal_factory None,
                PathSpec_init [''a'', ''b''] literal_factory (Some 0)])
   \<and> fst (pop_specfile [PathSpec_init [''a''] literal_factory None,
                 PathSpec_init [''a'', ''b''] literal_factory (Some 0)] 0) = Inl AttributeError"
  using pop_specfile_spec [of "[PathSpec_init [''a''] literal_factory None,
                 PathSpec_init [''a'', ''b''] literal_factory (Some 0)]" 1 0]
    pop_specfile_spec [of "[PathSpec_init [''a''] literal_factory None,
                 PathSpec_init [''a'', ''b''] literal_factory (Some 0)]" 0]
  by (simp add: PathSpec_init_def)

section \<open>Immutability\<close>

text \<open>
  C7. No public operation on an existing \<open>PathSpec\<close> object changes the \<open>patterns\<close>,
  \<open>lines\<close>, \<open>parent\<close> or \<open>child\<close> field of any object: after any call of \<open>__eq__\<close>,
  \<open>__len__\<close>, \<open>push_specfile\<close>, \<open>pop_specfile\<close>, \<open>match_file\<close>, \<open>match_entries\<close>,
  \<open>match_files\<close>, \<open>match_tree_entries\<close> or \<open>match_tree_files\<close>, the heap is the heap
  before the call. For \<open>push_specfile\<close> this holds because the call always raises before
  it reaches its assignments.
\<close>

theorem invoke_leaves_heap:
  "snd (invoke env h self op) = h"
  by (cases op) (simp_all add: push_specfile_raises pop_specfile_def PathSpec_match_files_def
      PathSpec_match_entries_def PathSpec_match_tree_files_def PathSpec_match_tree_entries_def
      Let_def split: option.splits)

section \<open>Configuration errors\<close>

text \<open>
  C8, as the code has it. \<open>from_lines\<close> raises \<open>TypeError\<close> when the factory argument does
  not resolve to a callable: it is neither a string nor callable, or it is a name for
  which the lookup returns a value that is not callable; and when the factory resolves
  and the lines are not iterable. \<open>match_files\<close> and \<open>match_entries\<close> are generator
  functions: called with an argument that is not iterable they raise nothing and return
  a generator, and that generator raises \<open>TypeError\<close> when it is first advanced, before it
  yields any item. In each of these cases \<open>from_lines\<close> creates no object (the heap is
  unchanged) and no verdict is computed (nothing is yielded).
\<close>

theorem config_errors:
  "(\<not> is_string factory_arg \<and> \<not> callable factory_arg \<longrightarrow>
      from_lines lookup h factory_arg lines_arg = (Inl TypeError, h))
   \<and> (lookup name = Inr v \<and> \<not> callable v \<longrightarrow>
      from_lines lookup h (PyStr name) lines_arg = (Inl TypeError, h))
   \<and> ((callable factory_arg \<or> (\<exists>known w. factory_arg = PyStr known \<and> lookup known = Inr w))
        \<and> \<not> is_iterable lines_arg \<longrightarrow>
      from_lines lookup h factory_arg lines_arg = (Inl TypeError, h))
   \<and> (\<not> is_iterable files \<longrightarrow>
      (\<exists>g. PathSpec_match_files norm self files = Inr g
         \<and> advance g = (Raises TypeError, Generator [] None)
         \<and> exhaust g = Inl TypeError))
   \<and> (\<not> is_iterable entries \<longrightarrow>
      (\<exists>g. PathSpec_match_entries norm entry_path self entries = Inr g
         \<and> advance g = (Raises TypeError, Generator [] None)
         \<and> exhaust g = Inl TypeError))"
proof (intro conjI impI)
  assume "\<not> is_string factory_arg \<and> \<not> callable factory_arg"
  then show "from_lines lookup h factory_arg lines_arg = (Inl TypeError, h)"
    by (cases factory_arg) (simp_all add: from_lines_def)
next
  assume "lookup name = Inr v \<and> \<not> callable v"
  then show "from_lines lookup h (PyStr name) lines_arg = (Inl TypeError, h)"
    by (cases v) (simp_all add: from_lines_def)
next
  assume a: "(callable factory_arg \<or> (\<exists>known w. factory_arg = PyStr known \<and> lookup known = Inr w))
        \<and> \<not> is_iterable lines_arg"
  show "from_lines lookup h factory_arg lines_arg = (Inl TypeError, h)"
  proof (cases "callable factory_arg")
    case True
    with a show ?thesis by (cases factory_arg) (simp_all add: from_lines_def)
  next
    case False
    with a obtain known w where "factory_arg = PyStr known" and "lookup known = Inr w"
      by blast
    with a show ?thesis by (cases w) (simp_all add: from_lines_def)
  qed
next
  assume "\<not> is_iterable files"
  then show "\<exists>g. PathSpec_match_files norm self files = Inr g
      \<and> advance g = (Raises TypeError, Generator [] None) \<and> exhaust g = Inl TypeError"
    by (simp add: PathSpec_match_files_def)
next
  assume "\<not> is_iterable entries"
  then show "\<exists>g. PathSpec_match_entries norm entry_path self entries = Inr g
      \<and> advance g = (Raises TypeError, Generator [] None) \<and> exhaust g = Inl TypeError"
    by (simp add: PathSpec_match_entries_def)
qed

theorem config_errors_witness:
  "from_lines literal_lookup [] PyNone (PyIterable [''foo'']) = (Inl TypeError, [])
   \<and> from_lines literal_lookup [] (PyStr ''nosuch'') (PyIterable [''foo'']) = (Inl TypeError, [])
   \<and> from_lines literal_lookup [] (PyStr ''literal'') PyNone = (Inl TypeError, [])
   \<and> from_lines literal_lookup [] (PyCallable literal_factory) (PyStr ''foo'')
        = (Inl TypeError, [])
   \<and> (\<exists>g. PathSpec_match_files id (PathSpec_init [''foo''] literal_factory None) PyNone = Inr g
        \<and> advance g = (Raises TypeError, Generator [] None) \<and> exhaust g = Inl TypeError)
   \<and> (\<exists>g. PathSpec_match_entries id id (PathSpec_init [''foo''] literal_factory None)
          (PyStr ''foo'') = Inr g
        \<and> advance g = (Raises TypeError, Generator [] None) \<and> exhaust g = Inl TypeError)"
  using config_errors [of PyNone literal_lookup "[]" "PyIterable [''foo'']"
      "''nosuch''" PyNone PyNone id "PathSpec_init [''foo''] literal_factory None"
      "PyStr ''foo''" id]
    config_errors [of "PyStr ''literal''" literal_lookup "[]" PyNone
      "''nosuch''" PyNone PyNone id "PathSpec_init [''foo''] literal_factory None"
      "PyStr ''foo''" id]
    config_errors [of "PyCallable literal_factory" literal_lookup "[]" "PyStr ''foo''"
      "''nosuch''" PyNone PyNone id "PathSpec_init [''foo''] literal_factory None"
      "PyStr ''foo''" id]
  by (simp add: literal_lookup_def)

text \<open>
  C8, as stated, fails: calling \<open>match_files\<close> with \<open>None\<close>, which is not iterable, raises
  nothing. The call returns a generator; the \<open>TypeError\<close> is what that generator raises
  when it is advanced.
\<close>

theorem config_errors_counterexample:
  "PathSpec_match_files id (PathSpec_init [''foo''] literal_factory None) PyNone
      = Inr (Generator [] (Some TypeError))
   \<and> PathSpec_match_files id (PathSpec_init [''foo''] literal_factory None) PyNone
      \<noteq> Inl TypeError"
  by (simp add: PathSpec_match_files_def)

section \<open>\<open>GrepWildMatchPattern.is_specfile\<close>\<close>

text \<open>
  With \<open>os\<close> bound in the module, \<open>is_specfile\<close> would return whether the basename of the
  path is \<open>.grepignore\<close>.
\<close>

lemma is_specfile_with_os:
  "''os'' \<in> set module_globals \<Longrightarrow>
     is_specfile module_globals file_path = Inr (basename file_path = ''.grepignore'')"
  by (simp add: is_specfile_def)

lemma grepwildmatch_module_never_loads:
  "grepwildmatch_module gitwildmatch_names = Inl ImportError
   \<or> grepwildmatch_module gitwildmatch_names = Inl NameError"
  by (simp add: grepwildmatch_module_def)

text \<open>
  C10, on the code: the module does not import \<open>os\<close>. If \<open>gitwildmatch\<close> does not export
  \<open>GrepWildMatchPattern\<close>, line 1 raises \<open>ImportError\<close>; if it does, the class statement
  raises \<open>NameError\<close> for its base \<open>GitWildMatchPattern\<close>; and the body of \<open>is_specfile\<close>,
  run in the namespace that line 1 leaves, raises \<open>NameError\<close> for \<open>os\<close> on the path
  \<open>.grepignore\<close> instead of returning true.
\<close>

theorem is_specfile_name_error:
  "grepwildmatch_module [''GitWildMatchPattern''] = Inl ImportError
   \<and> grepwildmatch_module [''GitWildMatchPattern'', ''GrepWildMatchPattern''] = Inl NameError
   \<and> is_specfile [''GrepWildMatchPattern''] ''.grepignore'' = Inl NameError"
  by (simp add: grepwildmatch_module_def is_specfile_def)

end
